theory Spec2Isabelle
  imports Complex_Main
begin

section \<open>Python values, dictionaries and exceptions\<close>

text \<open>
  The program passes events around as Python dictionaries \<^verbatim>\<open>Dict[str, Any]\<close>.
  A value is one of the JSON-compatible Python values, or an opaque object
  (a \<^verbatim>\<open>datetime\<close>, a client handle) that \<^verbatim>\<open>json.dumps\<close> refuses.
  A dictionary is an association list in insertion order; Python keeps its keys
  distinct, which \<open>wf_pyval\<close> states.  Floats and tuples do not occur in the
  events the connectors build and are left out.
\<close>

datatype pyval =
    PNone
  | PBool bool
  | PInt int
  | PStr string
  | PList "pyval list"
  | PDict "(string \<times> pyval) list"
  | PObject string

type_synonym pydict = "(string \<times> pyval) list"

text \<open>
  The exceptions of the model are instances of subclasses of \<^verbatim>\<open>Exception\<close>, the ones an
  \<^verbatim>\<open>except Exception\<close> clause catches.
\<close>

datatype pyexn =
    ConnectionError string
  | ValueError string
  | TypeError string
  | KeyError string
  | OtherException string

text \<open>\<^verbatim>\<open>d.get(k, default)\<close>\<close>

definition dict_get :: "pydict \<Rightarrow> string \<Rightarrow> pyval \<Rightarrow> pyval" where
  "dict_get d k dflt = (case map_of d k of None \<Rightarrow> dflt | Some v \<Rightarrow> v)"

text \<open>\<^verbatim>\<open>d[k] = v\<close>: an existing key keeps its place, a new key goes last.\<close>

primrec setitem :: "'k \<Rightarrow> 'v \<Rightarrow> ('k \<times> 'v) list \<Rightarrow> ('k \<times> 'v) list" where
  "setitem k v [] = [(k, v)]"
| "setitem k v (p # ps) = (if fst p = k then (k, v) # ps else p # setitem k v ps)"

primrec wf_pyval :: "pyval \<Rightarrow> bool" where
  "wf_pyval PNone = True"
| "wf_pyval (PBool b) = True"
| "wf_pyval (PInt i) = True"
| "wf_pyval (PStr s) = True"
| "wf_pyval (PList xs) = list_all id (map wf_pyval xs)"
| "wf_pyval (PDict kvs) =
     (distinct (map fst kvs) \<and> list_all snd (map (map_prod id wf_pyval) kvs))"
| "wf_pyval (PObject n) = True"

section \<open>Severity taxonomy\<close>

text \<open>
  \<^verbatim>\<open>AWSAgent._map_guardduty_severity(severity: float)\<close>.  The comparisons of a finite
  float with the integer cut points are exact, so the native value is a real number.
\<close>

definition map_guardduty_severity :: "real \<Rightarrow> string" where
  "map_guardduty_severity sev =
     (if sev \<ge> 7 then ''critical''
      else if sev \<ge> 4 then ''high''
      else if sev \<ge> 2 then ''medium''
      else ''low'')"

text \<open>\<^verbatim>\<open>AWSAgent._map_securityhub_severity(severity: int)\<close>\<close>

definition map_securityhub_severity :: "int \<Rightarrow> string" where
  "map_securityhub_severity sev =
     (if sev \<ge> 70 then ''critical''
      else if sev \<ge> 40 then ''high''
      else if sev \<ge> 20 then ''medium''
      else ''low'')"

text \<open>\<^verbatim>\<open>WazuhAgent._map_severity(level: int)\<close>\<close>

definition wazuh_map_severity :: "int \<Rightarrow> string" where
  "wazuh_map_severity level =
     (if level \<ge> 15 then ''critical''
      else if level \<ge> 10 then ''high''
      else if level \<ge> 5 then ''medium''
      else ''low'')"

text \<open>The four canonical severity levels.\<close>

definition canonical_severities :: "string list" where
  "canonical_severities = [''critical'', ''high'', ''medium'', ''low'']"

section \<open>Source connectors\<close>

text \<open>
  A \<^verbatim>\<open>datetime\<close> is a count of microseconds; \<^verbatim>\<open>timedelta(seconds=n)\<close> is \<open>n\<close> million
  of them.  Where the source formats the clock (\<^verbatim>\<open>datetime.now().isoformat()\<close>) the
  model takes the formatted string as an input.
\<close>

type_synonym datetime = int

definition timedelta_seconds :: "int \<Rightarrow> int" where
  "timedelta_seconds n = n * 1000000"

text \<open>\<^verbatim>\<open>BaseLogAgent\<close>: the state the base class keeps.\<close>

record agent =
  last_run :: "datetime option"
  batch_size :: int

text \<open>
  The four abstract methods of \<^verbatim>\<open>BaseLogAgent\<close>, as they answer during one cycle:
  \<^verbatim>\<open>connect\<close> returns a bool or raises, \<^verbatim>\<open>fetch_logs\<close> returns the native records or
  raises, \<^verbatim>\<open>parse_log\<close> returns the normalized event or raises, \<^verbatim>\<open>disconnect\<close> returns
  nothing or raises.
\<close>

record connector =
  connect :: "pyexn + bool"
  fetch_logs :: "datetime option \<Rightarrow> datetime option \<Rightarrow> pyexn + pydict list"
  parse_log :: "pydict \<Rightarrow> pyexn + pydict"
  disconnect :: "pyexn option"

text \<open>
  \<^verbatim>\<open>BaseLogAgent.process_logs\<close>: the loop appends each parsed record to
  \<^verbatim>\<open>processed_logs\<close>; a record whose \<^verbatim>\<open>parse_log\<close> raises is printed and skipped.
\<close>

primrec process_logs_loop ::
  "(pydict \<Rightarrow> pyexn + pydict) \<Rightarrow> pydict list \<Rightarrow> pydict list \<Rightarrow> pydict list" where
  "process_logs_loop parse [] processed_logs = processed_logs"
| "process_logs_loop parse (entry # logs) processed_logs =
     (case parse entry of
        Inr processed_log \<Rightarrow> process_logs_loop parse logs (processed_logs @ [processed_log])
      | Inl e \<Rightarrow> process_logs_loop parse logs processed_logs)"

definition process_logs :: "(pydict \<Rightarrow> pyexn + pydict) \<Rightarrow> pydict list \<Rightarrow> pydict list" where
  "process_logs parse logs = process_logs_loop parse logs []"

text \<open>
  \<^verbatim>\<open>BaseLogAgent.run\<close>.  The \<^verbatim>\<open>try\<close> block raises \<^verbatim>\<open>ConnectionError\<close> when \<^verbatim>\<open>connect\<close>
  returns false, calls \<^verbatim>\<open>fetch_logs\<close> with no arguments, and sets \<^verbatim>\<open>last_run\<close> to the clock
  (\<open>now\<close>) after \<^verbatim>\<open>process_logs\<close>.  \<^verbatim>\<open>except Exception\<close> returns the empty list.  The
  \<^verbatim>\<open>finally\<close> clause runs \<^verbatim>\<open>disconnect\<close> on every path; an exception it raises replaces the
  return value.  The result is the value returned or the exception raised, and the agent
  after the call.
\<close>

definition run ::
  "connector \<Rightarrow> datetime \<Rightarrow> 'a agent_scheme \<Rightarrow> (pyexn + pydict list) \<times> 'a agent_scheme" where
  "run c now self =
     (let (result, self') =
        (case connect c of
           Inl e \<Rightarrow> (Inr [], self)
         | Inr ok \<Rightarrow>
             if \<not> ok then (Inr [], self)
             else (case fetch_logs c None None of
                     Inl e \<Rightarrow> (Inr [], self)
                   | Inr logs \<Rightarrow>
                       (Inr (process_logs (parse_log c) logs), self\<lparr>last_run := Some now\<rparr>)))
      in case disconnect c of
           None \<Rightarrow> (result, self')
         | Some e \<Rightarrow> (Inl e, self'))"

subsection \<open>The Splunk connector\<close>

record splunk_config =
  index :: string
  search_interval :: int

text \<open>
  The search the connector submits: the index and the two bounds, which the query text
  renders with \<^verbatim>\<open>strftime("%Y-%m-%d %H:%M:%S")\<close>, that is, cut to whole seconds.
\<close>

datatype search_query = Search string datetime datetime

definition whole_seconds :: "datetime \<Rightarrow> datetime" where
  "whole_seconds t = t - t mod 1000000"

text \<open>
  The first four lines of \<^verbatim>\<open>SplunkAgent.fetch_logs\<close>: the window it queries.  \<open>now1\<close> and
  \<open>now2\<close> are the two readings of the clock.  The configured interval is a number of
  seconds that keeps the start within the range of \<^verbatim>\<open>datetime\<close>.
\<close>

definition splunk_fetch_window ::
  "splunk_config \<Rightarrow> datetime \<Rightarrow> datetime \<Rightarrow> datetime option \<Rightarrow> datetime option
     \<Rightarrow> datetime \<times> datetime" where
  "splunk_fetch_window cfg now1 now2 start_time end_time =
     (let start_time' =
            (case start_time of
               None \<Rightarrow> now1 - timedelta_seconds (search_interval cfg)
             | Some s \<Rightarrow> s);
          end_time' = (case end_time of None \<Rightarrow> now2 | Some e \<Rightarrow> e)
      in (start_time', end_time'))"

text \<open>
  \<^verbatim>\<open>SplunkAgent.fetch_logs\<close>.  \<open>search\<close> is the Splunk service: creating the job, waiting
  for it and reading its results, which yields the records or raises.  Any exception is
  printed and the empty list returned.
\<close>

definition splunk_fetch_logs ::
  "splunk_config \<Rightarrow> (search_query \<Rightarrow> pyexn + pydict list) \<Rightarrow> datetime \<Rightarrow> datetime
     \<Rightarrow> datetime option \<Rightarrow> datetime option \<Rightarrow> pydict list" where
  "splunk_fetch_logs cfg search now1 now2 start_time end_time =
     (case splunk_fetch_window cfg now1 now2 start_time end_time of
        (start_time', end_time') \<Rightarrow>
          (case search (Search (index cfg) (whole_seconds start_time') (whole_seconds end_time')) of
             Inl e \<Rightarrow> []
           | Inr logs \<Rightarrow> logs))"

text \<open>
  \<^verbatim>\<open>SplunkAgent.parse_log\<close>.  \<^verbatim>\<open>dict.get\<close> does not raise on a dictionary, so the
  \<^verbatim>\<open>except\<close> branch that returns \<^verbatim>\<open>{}\<close> is never taken.
\<close>

definition splunk_parse_log :: "string \<Rightarrow> pydict \<Rightarrow> pydict" where
  "splunk_parse_log now_iso entry =
     [(''timestamp'', dict_get entry ''_time'' (PStr now_iso)),
      (''source'', dict_get entry ''source'' (PStr ''unknown'')),
      (''sourcetype'', dict_get entry ''sourcetype'' (PStr ''unknown'')),
      (''host'', dict_get entry ''host'' (PStr ''unknown'')),
      (''raw'', dict_get entry ''_raw'' (PStr [])),
      (''severity'', dict_get entry ''severity'' (PStr ''info'')),
      (''event_type'', dict_get entry ''eventtype'' (PStr ''unknown'')),
      (''source_ip'', dict_get entry ''src_ip'' (PStr [])),
      (''destination_ip'', dict_get entry ''dest_ip'' (PStr [])),
      (''user'', dict_get entry ''user'' (PStr [])),
      (''action'', dict_get entry ''action'' (PStr [])),
      (''status'', dict_get entry ''status'' (PStr [])),
      (''message'', dict_get entry ''message'' (PStr []))]"

text \<open>
  The Splunk connector during one cycle.  \<^verbatim>\<open>connect\<close> returns false when building the
  \<^verbatim>\<open>Service\<close> raises (\<open>service_error\<close>); \<^verbatim>\<open>disconnect\<close> logs out, which may raise
  (\<open>logout_error\<close>).
\<close>

definition splunk_agent ::
  "splunk_config \<Rightarrow> pyexn option \<Rightarrow> (search_query \<Rightarrow> pyexn + pydict list) \<Rightarrow> datetime
     \<Rightarrow> datetime \<Rightarrow> string \<Rightarrow> pyexn option \<Rightarrow> connector" where
  "splunk_agent cfg service_error search now1 now2 now_iso logout_error =
     \<lparr>connect = (case service_error of None \<Rightarrow> Inr True | Some e \<Rightarrow> Inr False),
      fetch_logs = (\<lambda>start_time end_time.
         Inr (splunk_fetch_logs cfg search now1 now2 start_time end_time)),
      parse_log = (\<lambda>entry. Inr (splunk_parse_log now_iso entry)),
      disconnect = logout_error\<rparr>"

text \<open>
  A Splunk service that answers every search with one record holding the bounds it
  was asked for.
\<close>

definition echo_search :: "search_query \<Rightarrow> pyexn + pydict list" where
  "echo_search q =
     (case q of Search i earliest latest \<Rightarrow>
        Inr [[(''_raw'', PList [PInt earliest, PInt latest])]])"

section \<open>Collection scheduler\<close>

text \<open>The lines \<^verbatim>\<open>AgentRunner.run_agent\<close> writes to the logger.\<close>

datatype log_record =
    Error_not_found string
  | Info_running string
  | Info_collected nat string
  | Info_no_new_logs string
  | Error_running string pyexn

record agent_runner =
  agents :: "(string \<times> agent) list"
  running :: bool

text \<open>
  \<^verbatim>\<open>AgentRunner.run_agent\<close>.  \<open>world\<close> gives each agent's connector for this cycle.  The
  runner holds no message bus: with a non-empty result the method logs the count and does
  nothing else (the source marks the place with the comment
  \<^verbatim>\<open># Process logs here (e.g., send to message bus)\<close>).  The result is the runner after the
  call and the lines logged.
\<close>

definition run_agent ::
  "(string \<Rightarrow> connector) \<Rightarrow> datetime \<Rightarrow> string \<Rightarrow> agent_runner
     \<Rightarrow> agent_runner \<times> log_record list" where
  "run_agent world now agent_name self =
     (case map_of (agents self) agent_name of
        None \<Rightarrow> (self, [Error_not_found agent_name])
      | Some a \<Rightarrow>
          (case run (world agent_name) now a of
             (Inr logs, a') \<Rightarrow>
               (self\<lparr>agents := setitem agent_name a' (agents self)\<rparr>,
                [Info_running agent_name,
                 if logs \<noteq> [] then Info_collected (length logs) agent_name
                 else Info_no_new_logs agent_name])
           | (Inl e, a') \<Rightarrow>
               (self\<lparr>agents := setitem agent_name a' (agents self)\<rparr>,
                [Info_running agent_name, Error_running agent_name e])))"

section \<open>Durable message bus\<close>

text \<open>
  The body of a message is the JSON text \<^verbatim>\<open>json.dumps\<close> writes, represented by its
  document tree.  \<^verbatim>\<open>json.dumps\<close> raises \<^verbatim>\<open>TypeError\<close> on a value that holds an object it
  cannot encode; \<^verbatim>\<open>json.loads\<close> builds each dictionary by inserting the members of the
  JSON object in order, so a repeated member name keeps its last value.
\<close>

datatype json =
    JNull
  | JBool bool
  | JNumber int
  | JString string
  | JArray "json list"
  | JObject "(string \<times> json) list"

primrec serializable :: "pyval \<Rightarrow> bool" where
  "serializable PNone = True"
| "serializable (PBool b) = True"
| "serializable (PInt i) = True"
| "serializable (PStr s) = True"
| "serializable (PList xs) = list_all id (map serializable xs)"
| "serializable (PDict kvs) = list_all snd (map (map_prod id serializable) kvs)"
| "serializable (PObject n) = False"

primrec to_json :: "pyval \<Rightarrow> json" where
  "to_json PNone = JNull"
| "to_json (PBool b) = JBool b"
| "to_json (PInt i) = JNumber i"
| "to_json (PStr s) = JString s"
| "to_json (PList xs) = JArray (map to_json xs)"
| "to_json (PDict kvs) = JObject (map (map_prod id to_json) kvs)"
| "to_json (PObject n) = JNull"

definition dumps :: "pyval \<Rightarrow> pyexn + json" where
  "dumps v =
     (if serializable v then Inr (to_json v)
      else Inl (TypeError ''Object is not JSON serializable''))"

definition dict_of_pairs :: "('k \<times> 'v) list \<Rightarrow> ('k \<times> 'v) list" where
  "dict_of_pairs kvs = foldl (\<lambda>d kv. setitem (fst kv) (snd kv) d) [] kvs"

primrec loads :: "json \<Rightarrow> pyval" where
  "loads JNull = PNone"
| "loads (JBool b) = PBool b"
| "loads (JNumber i) = PInt i"
| "loads (JString s) = PStr s"
| "loads (JArray xs) = PList (map loads xs)"
| "loads (JObject kvs) = PDict (dict_of_pairs (map (map_prod id loads) kvs))"

text \<open>\<^verbatim>\<open>MessageBus.queues\<close>, set in \<^verbatim>\<open>__init__\<close>.\<close>

definition queues :: "(string \<times> string) list" where
  "queues =
     [(''logs'', ''security_logs''),
      (''analysis'', ''security_analysis''),
      (''alerts'', ''security_alerts''),
      (''investigations'', ''security_investigations'')]"

text \<open>The broker: the bodies waiting in each durable queue, oldest first.\<close>

type_synonym broker = "string \<Rightarrow> json list"

text \<open>
  \<^verbatim>\<open>MessageBus.publish\<close>.  \<open>now_iso\<close> is \<^verbatim>\<open>datetime.now().isoformat()\<close>; \<open>channel_error\<close>
  is the exception \<^verbatim>\<open>basic_publish\<close> raises, if any.  Every exception is printed and raised
  again.  The result is the outcome, the caller's dictionary after the call (the method
  assigns to it in place) and the broker.
\<close>

definition publish ::
  "string \<Rightarrow> pyexn option \<Rightarrow> string \<Rightarrow> pydict \<Rightarrow> broker
     \<Rightarrow> (pyexn + unit) \<times> pydict \<times> broker" where
  "publish now_iso channel_error queue message broker =
     (if queue \<notin> set (map snd queues)
      then (Inl (ValueError (''Invalid queue: '' @ queue)), message, broker)
      else
        (let message' = setitem ''timestamp'' (PStr now_iso) message
         in case dumps (PDict message') of
              Inl e \<Rightarrow> (Inl e, message', broker)
            | Inr body \<Rightarrow>
                (case channel_error of
                   Some e \<Rightarrow> (Inl e, message', broker)
                 | None \<Rightarrow> (Inr (), message', broker(queue := broker queue @ [body])))))"

datatype delivery = Acked | Nacked

text \<open>
  The closure \<^verbatim>\<open>_callback\<close> of \<^verbatim>\<open>MessageBus.consume\<close>: the handler gets
  \<^verbatim>\<open>json.loads(body)\<close>; the message is acknowledged when the handler returns and
  negatively acknowledged when it raises.  The result names the payload handed to the
  handler.
\<close>

definition consume_callback :: "(pyval \<Rightarrow> pyexn option) \<Rightarrow> json \<Rightarrow> pyval \<times> delivery" where
  "consume_callback callback body =
     (let message = loads body
      in (message, case callback message of None \<Rightarrow> Acked | Some e \<Rightarrow> Nacked))"

text \<open>
  \<^verbatim>\<open>MessageBus.consume\<close>, up to the first delivery of its consuming loop: the queue name
  is checked, and the oldest body of the queue, if there is one, goes through
  \<^verbatim>\<open>_callback\<close>.  An acknowledged message leaves the queue; a negatively acknowledged
  one stays for redelivery.
\<close>

definition consume ::
  "(pyval \<Rightarrow> pyexn option) \<Rightarrow> string \<Rightarrow> broker
     \<Rightarrow> (pyexn + (pyval \<times> delivery) option) \<times> broker" where
  "consume callback queue broker =
     (if queue \<notin> set (map snd queues)
      then (Inl (ValueError (''Invalid queue: '' @ queue)), broker)
      else
        (case broker queue of
           [] \<Rightarrow> (Inr None, broker)
         | body # rest \<Rightarrow>
             (case consume_callback callback body of
                (message, Acked) \<Rightarrow> (Inr (Some (message, Acked)), broker(queue := rest))
              | (message, Nacked) \<Rightarrow> (Inr (Some (message, Nacked)), broker))))"

section \<open>Analysis stage\<close>

text \<open>
  A character of a string is a code point below 256.  \<^verbatim>\<open>s.split(sep)\<close>, \<^verbatim>\<open>s.strip()\<close>,
  \<^verbatim>\<open>s.lower()\<close> and \<^verbatim>\<open>sub in s\<close> on such strings: the whitespace \<^verbatim>\<open>strip\<close> removes is the
  code points 9 to 13, 28 to 32, 133 and 160, and \<^verbatim>\<open>lower\<close> moves the letters 65 to 90 and
  192 to 222 (but not the multiplication sign 215) up by 32.
\<close>

primrec split_on :: "char \<Rightarrow> string \<Rightarrow> string list" where
  "split_on sep [] = [[]]"
| "split_on sep (c # cs) =
     (if c = sep then [] # split_on sep cs
      else (case split_on sep cs of
              [] \<Rightarrow> [[c]]
            | piece # pieces \<Rightarrow> (c # piece) # pieces))"

definition is_space :: "char \<Rightarrow> bool" where
  "is_space c =
     (let n = (of_char c :: nat)
      in (9 \<le> n \<and> n \<le> 13) \<or> (28 \<le> n \<and> n \<le> 32) \<or> n = 133 \<or> n = 160)"

definition strip :: "string \<Rightarrow> string" where
  "strip s = rev (dropWhile is_space (rev (dropWhile is_space s)))"

definition lower_char :: "char \<Rightarrow> char" where
  "lower_char c =
     (let n = (of_char c :: nat)
      in if (65 \<le> n \<and> n \<le> 90) \<or> (192 \<le> n \<and> n \<le> 222 \<and> n \<noteq> 215)
         then char_of (n + 32) else c)"

definition lower :: "string \<Rightarrow> string" where
  "lower s = map lower_char s"

primrec is_in :: "string \<Rightarrow> string \<Rightarrow> bool" where
  "is_in sub [] = (sub = [])"
| "is_in sub (c # cs) = (take (length sub) (c # cs) = sub \<or> is_in sub cs)"

text \<open>The dictionary an analysis returns: its four keys.\<close>

record analysis =
  severity :: string
  impact :: string
  recommendations :: "string list"
  iocs :: "string list"

text \<open>
  \<^verbatim>\<open>LLMAnalysisEngine._parse_analysis_response\<close>: one turn of the loop over the lines,
  on the result so far and \<^verbatim>\<open>current_section\<close>, and then the whole scan.
\<close>

definition parse_analysis_line ::
  "analysis \<times> string option \<Rightarrow> string \<Rightarrow> analysis \<times> string option" where
  "parse_analysis_line state raw_line =
     (case state of (result, current_section) \<Rightarrow>
        (let line = strip raw_line in
         if line = [] then (result, current_section)
         else if is_in ''severity'' (lower line)
           then (result\<lparr>severity := strip (last (split_on CHR '':'' line))\<rparr>, current_section)
         else if is_in ''impact'' (lower line) then (result, Some ''impact'')
         else if is_in ''recommend'' (lower line) then (result, Some ''recommendations'')
         else if is_in ''indicator'' (lower line) then (result, Some ''iocs'')
         else if current_section = Some ''impact''
           then (result\<lparr>impact := impact result @ line @ '' ''\<rparr>, current_section)
         else if current_section = Some ''recommendations''
           then (result\<lparr>recommendations := recommendations result @ [line]\<rparr>, current_section)
         else if current_section = Some ''iocs''
           then (result\<lparr>iocs := iocs result @ [line]\<rparr>, current_section)
         else (result, current_section)))"

definition parse_analysis_response :: "string \<Rightarrow> analysis" where
  "parse_analysis_response response =
     fst (foldl parse_analysis_line
            (\<lparr>severity = ''unknown'', impact = [], recommendations = [], iocs = []\<rparr>, None)
            (split_on (CHR 0x0A) response))"

text \<open>
  \<^verbatim>\<open>LLMAnalysisEngine._format_event_details\<close>.  \<open>str_of\<close> is the text an f-string
  writes for a value.
\<close>

definition detail_line :: "(pyval \<Rightarrow> string) \<Rightarrow> pydict \<Rightarrow> string \<Rightarrow> string \<Rightarrow> string" where
  "detail_line str_of event label k =
     [CHR 0x0A] @ ''        '' @ label @ '': '' @ str_of (dict_get event k (PStr ''unknown''))"

definition format_event_details :: "(pyval \<Rightarrow> string) \<Rightarrow> pydict \<Rightarrow> string" where
  "format_event_details str_of event =
     detail_line str_of event ''Timestamp'' ''timestamp'' @
     detail_line str_of event ''Source'' ''source'' @
     detail_line str_of event ''Event Type'' ''event_type'' @
     detail_line str_of event ''Severity'' ''severity'' @
     detail_line str_of event ''Source IP'' ''source_ip'' @
     detail_line str_of event ''Destination IP'' ''destination_ip'' @
     detail_line str_of event ''User'' ''user'' @
     detail_line str_of event ''Action'' ''action'' @
     detail_line str_of event ''Status'' ''status'' @
     detail_line str_of event ''Message'' ''message'' @
     [CHR 0x0A] @ ''        ''"

text \<open>
  The enrichment capability as the engine calls it: formatting the configured prompt
  template with the event details, tokenizing the prompt, generating, and decoding the
  first output.  Each step returns or raises.
\<close>

record ('t, 'o) llm =
  format_prompt :: "string \<Rightarrow> pyexn + string"
  tokenizer :: "string \<Rightarrow> pyexn + 't"
  generate :: "'t \<Rightarrow> pyexn + 'o"
  decode :: "'o \<Rightarrow> pyexn + string"

text \<open>
  \<^verbatim>\<open>LLMAnalysisEngine.analyze_security_event\<close>: the body of the \<^verbatim>\<open>try\<close> block, which
  returns the parsed analysis or raises, and the method, whose \<^verbatim>\<open>except Exception\<close>
  returns the fixed result.
\<close>

definition analyze_body ::
  "('t, 'o) llm \<Rightarrow> (pyval \<Rightarrow> string) \<Rightarrow> pydict \<Rightarrow> pyexn + analysis" where
  "analyze_body engine str_of event =
     (case format_prompt engine (format_event_details str_of event) of
        Inl e \<Rightarrow> Inl e
      | Inr prompt \<Rightarrow>
          (case tokenizer engine prompt of
             Inl e \<Rightarrow> Inl e
           | Inr inputs \<Rightarrow>
               (case generate engine inputs of
                  Inl e \<Rightarrow> Inl e
                | Inr outputs \<Rightarrow>
                    (case decode engine outputs of
                       Inl e \<Rightarrow> Inl e
                     | Inr response \<Rightarrow> Inr (parse_analysis_response response)))))"

definition analyze_security_event ::
  "('t, 'o) llm \<Rightarrow> (pyval \<Rightarrow> string) \<Rightarrow> pydict \<Rightarrow> analysis" where
  "analyze_security_event engine str_of event =
     (case analyze_body engine str_of event of
        Inr result \<Rightarrow> result
      | Inl e \<Rightarrow>
          \<lparr>severity = ''unknown'',
           impact = ''Error during analysis'',
           recommendations = [''Investigate analysis error''],
           iocs = []\<rparr>)"

section \<open>Alert fan-out\<close>

text \<open>
  \<^verbatim>\<open>Notifier\<close>: the settings read from the environment that its methods test.  A missing
  variable is \<open>None\<close>.
\<close>

record notifier =
  slack_webhook_url :: "string option"
  smtp_username :: "string option"
  smtp_password :: "string option"

text \<open>The truth value of an optional string: \<^verbatim>\<open>None\<close> and the empty string are false.\<close>

definition truthy :: "string option \<Rightarrow> bool" where
  "truthy s = (case s of None \<Rightarrow> False | Some t \<Rightarrow> t \<noteq> [])"

text \<open>
  \<^verbatim>\<open>Notifier._send_slack_alert\<close>: raises \<^verbatim>\<open>ValueError\<close> without a webhook URL; otherwise
  renders the message and posts it, which returns or raises (\<open>post\<close>).  The result is the
  exception raised, if any.
\<close>

definition send_slack_alert ::
  "notifier \<Rightarrow> (pydict \<Rightarrow> pyexn option) \<Rightarrow> pydict \<Rightarrow> pyexn option" where
  "send_slack_alert self post alert =
     (if \<not> truthy (slack_webhook_url self)
      then Some (ValueError ''Slack webhook URL not configured'')
      else post alert)"

text \<open>
  \<^verbatim>\<open>Notifier._send_email_alert\<close>: raises \<^verbatim>\<open>ValueError\<close> without both SMTP credentials;
  otherwise builds the mail and sends it (\<open>smtp\<close>), raising again what the transport
  raises.
\<close>

definition send_email_alert ::
  "notifier \<Rightarrow> (pydict \<Rightarrow> pyexn option) \<Rightarrow> pydict \<Rightarrow> pyexn option" where
  "send_email_alert self smtp alert =
     (if \<not> (truthy (smtp_username self) \<and> truthy (smtp_password self))
      then Some (ValueError ''SMTP credentials not configured'')
      else smtp alert)"

text \<open>
  \<^verbatim>\<open>Notifier.send_alert\<close>.  The loop visits the channels in order; the \<^verbatim>\<open>try\<close> inside it
  catches what a channel raises and prints it.  The method returns nothing and raises
  nothing; the result of the model is the trace of the deliveries attempted, each with
  the exception it raised, if any.  A channel that is neither \<^verbatim>\<open>slack\<close> nor \<^verbatim>\<open>email\<close> is
  passed over.
\<close>

primrec send_alert_loop ::
  "notifier \<Rightarrow> (pydict \<Rightarrow> pyexn option) \<Rightarrow> (pydict \<Rightarrow> pyexn option) \<Rightarrow> pydict
     \<Rightarrow> string list \<Rightarrow> (string \<times> pyexn option) list" where
  "send_alert_loop self post smtp alert [] = []"
| "send_alert_loop self post smtp alert (channel # channels) =
     (if channel = ''slack'' then [(channel, send_slack_alert self post alert)]
      else if channel = ''email'' then [(channel, send_email_alert self smtp alert)]
      else [])
     @ send_alert_loop self post smtp alert channels"

definition send_alert ::
  "notifier \<Rightarrow> (pydict \<Rightarrow> pyexn option) \<Rightarrow> (pydict \<Rightarrow> pyexn option) \<Rightarrow> pydict
     \<Rightarrow> string list option \<Rightarrow> (string \<times> pyexn option) list" where
  "send_alert self post smtp alert channels =
     send_alert_loop self post smtp alert
       (case channels of
          None \<Rightarrow> [''slack'', ''email'']
        | Some [] \<Rightarrow> [''slack'', ''email'']
        | Some (c # cs) \<Rightarrow> c # cs)"

section \<open>Example inputs\<close>

text \<open>Concrete configurations and services at which the results below are evaluated.\<close>

definition example_config :: splunk_config where
  "example_config = \<lparr>index = ''main'', search_interval = 300\<rparr>"

definition example_agent :: agent where
  "example_agent = \<lparr>last_run = Some 100000000, batch_size = 1000\<rparr>"


text \<open>A \<^verbatim>\<open>parse_log\<close> that indexes \<^verbatim>\<open>log['_source']\<close> and so raises on a record without it.\<close>

definition strict_parse_log :: "pydict \<Rightarrow> pyexn + pydict" where
  "strict_parse_log entry =
     (case map_of entry ''_source'' of
        None \<Rightarrow> Inl (KeyError ''_source'')
      | Some v \<Rightarrow> Inr [(''raw'', v)])"

definition example_batch_connector :: connector where
  "example_batch_connector =
     \<lparr>connect = Inr True,
      fetch_logs = (\<lambda>start_time end_time.
         Inr [[(''_source'', PInt 1)], [], [(''_source'', PInt 2)]]),
      parse_log = strict_parse_log,
      disconnect = None\<rparr>"



definition example_world :: "string \<Rightarrow> connector" where
  "example_world agent_name =
     splunk_agent example_config None echo_search 1000000000 1000000000
       ''2024-01-01T00:16:40'' None"

definition example_runner :: agent_runner where
  "example_runner = \<lparr>agents = [(''splunk'', example_agent)], running = True\<rparr>"

definition example_event :: pydict where
  "example_event =
     [(''timestamp'', PStr ''2024-01-01T00:00:00''), (''severity'', PStr ''high'')]"

definition empty_broker :: broker where
  "empty_broker q = []"

definition accepting_handler :: "pyval \<Rightarrow> pyexn option" where
  "accepting_handler message = None"

text \<open>An engine whose generation step raises, and one that answers with a fixed text.\<close>

definition failing_llm :: "(string, string) llm" where
  "failing_llm =
     \<lparr>format_prompt = Inr, tokenizer = Inr,
      generate = (\<lambda>inputs. Inl (OtherException ''CUDA out of memory'')),
      decode = Inr\<rparr>"

definition canned_llm :: "(string, string) llm" where
  "canned_llm =
     \<lparr>format_prompt = Inr, tokenizer = Inr,
      generate = (\<lambda>inputs. Inr ''Severity: High''),
      decode = Inr\<rparr>"

definition example_str_of :: "pyval \<Rightarrow> string" where
  "example_str_of v = (case v of PStr s \<Rightarrow> s | _ \<Rightarrow> ''None'')"

text \<open>A notifier with SMTP credentials and no Slack webhook, and a transport that delivers.\<close>

definition example_notifier :: notifier where
  "example_notifier =
     \<lparr>slack_webhook_url = None,
      smtp_username = Some ''soc'',
      smtp_password = Some ''secret''\<rparr>"

definition delivering_transport :: "pydict \<Rightarrow> pyexn option" where
  "delivering_transport alert = None"

section \<open>Results\<close>

subsection \<open>Severity taxonomy\<close>

lemma wazuh_map_severity_canonical:
  "wazuh_map_severity level \<in> set canonical_severities"
  by (simp add: wazuh_map_severity_def canonical_severities_def)

text \<open>
  Claim C7.  The numeric severity taxonomy is total and its cut points are inclusive
  upward.  On the 0--10 scale the result is critical exactly when the value is at
  least 7, high exactly when it is at least 4 and below 7, medium exactly when it is
  at least 2 and below 4, and low exactly when it is below 2.  On the 0--100 scale the
  cut points are 70, 40 and 20.  So 8.5 maps to critical, 35 maps to medium, and the
  boundary values 7 and 70 take the higher bucket.
\<close>

theorem numeric_severity_thresholds:
  "(map_guardduty_severity v = ''critical'' \<longleftrightarrow> 7 \<le> v) \<and>
   (map_guardduty_severity v = ''high'' \<longleftrightarrow> 4 \<le> v \<and> v < 7) \<and>
   (map_guardduty_severity v = ''medium'' \<longleftrightarrow> 2 \<le> v \<and> v < 4) \<and>
   (map_guardduty_severity v = ''low'' \<longleftrightarrow> v < 2) \<and>
   (map_securityhub_severity n = ''critical'' \<longleftrightarrow> 70 \<le> n) \<and>
   (map_securityhub_severity n = ''high'' \<longleftrightarrow> 40 \<le> n \<and> n < 70) \<and>
   (map_securityhub_severity n = ''medium'' \<longleftrightarrow> 20 \<le> n \<and> n < 40) \<and>
   (map_securityhub_severity n = ''low'' \<longleftrightarrow> n < 20) \<and>
   map_guardduty_severity (17 / 2) = ''critical'' \<and>
   map_securityhub_severity 35 = ''medium'' \<and>
   map_guardduty_severity 7 = ''critical'' \<and>
   map_securityhub_severity 70 = ''critical''"
  by (simp add: map_guardduty_severity_def map_securityhub_severity_def)

subsection \<open>Canonical events\<close>

text \<open>
  Claim C1.  Every canonical event a connector's translation produces should carry one
  of the four canonical severities, obtained through the taxonomy.  The Wazuh connector
  and the cloud connectors map the native value (see \<open>wazuh_map_severity_canonical\<close>
  above).  The Splunk connector does not: the \<^verbatim>\<open>severity\<close> of the event it builds is the
  native record's \<^verbatim>\<open>severity\<close> unchanged, or \<^verbatim>\<open>info\<close> when the record has none, and
  neither \<^verbatim>\<open>informational\<close> nor \<^verbatim>\<open>info\<close> is a canonical level.
\<close>

theorem splunk_severity_passed_through:
  "dict_get (splunk_parse_log now_iso entry) ''severity'' dflt =
     dict_get entry ''severity'' (PStr ''info'') \<and>
   dict_get (splunk_parse_log now_iso [(''severity'', PStr ''informational'')]) ''severity'' dflt =
     PStr ''informational'' \<and>
   ''informational'' \<notin> set canonical_severities \<and>
   dict_get (splunk_parse_log now_iso []) ''severity'' dflt = PStr ''info'' \<and>
   ''info'' \<notin> set canonical_severities"
  by (simp add: splunk_parse_log_def dict_get_def canonical_severities_def)

subsection \<open>The batch loop\<close>

lemma process_logs_loop_acc:
  "process_logs_loop parse logs acc = acc @ process_logs_loop parse logs []"
proof (induction logs arbitrary: acc)
  case Nil
  show ?case by simp
next
  case (Cons entry logs)
  show ?case
  proof (cases "parse entry")
    case (Inl e)
    then show ?thesis using Cons.IH [of acc] by simp
  next
    case (Inr ev)
    then show ?thesis using Cons.IH [of "acc @ [ev]"] Cons.IH [of "[ev]"] by simp
  qed
qed

lemma process_logs_Nil: "process_logs parse [] = []"
  by (simp add: process_logs_def)

lemma process_logs_Cons:
  "process_logs parse (entry # logs) =
     (case parse entry of
        Inl e \<Rightarrow> process_logs parse logs
      | Inr ev \<Rightarrow> ev # process_logs parse logs)"
  using process_logs_loop_acc [of parse logs "[ev]" for ev]
  by (simp add: process_logs_def split: sum.splits)

lemma process_logs_append:
  "process_logs parse (xs @ ys) = process_logs parse xs @ process_logs parse ys"
  by (induction xs) (simp_all add: process_logs_Nil process_logs_Cons split: sum.splits)

lemma process_logs_all_ok:
  "list_all (\<lambda>r. \<not> isl (parse r)) xs \<Longrightarrow> process_logs parse xs = map (projr \<circ> parse) xs"
  by (induction xs) (auto simp add: process_logs_Nil process_logs_Cons split: sum.splits)

text \<open>
  Claim C6.  In a batch \<open>xs @ bad # ys\<close> where translating \<open>bad\<close> raises and every
  other record translates, \<^verbatim>\<open>process_logs\<close> returns the translations of \<open>xs @ ys\<close> in
  input order, one fewer than the records of the batch.  The cycle still succeeds: when
  \<^verbatim>\<open>connect\<close> returns true and \<^verbatim>\<open>fetch_logs\<close> returns this batch, \<^verbatim>\<open>run\<close> sets \<^verbatim>\<open>last_run\<close>
  to the clock and (when \<^verbatim>\<open>disconnect\<close> does not raise) returns those events.
\<close>

theorem process_logs_drops_one:
  assumes bad: "parse bad = Inl e"
    and good: "list_all (\<lambda>r. \<not> isl (parse r)) (xs @ ys)"
  shows "process_logs parse (xs @ bad # ys) = map (projr \<circ> parse) (xs @ ys) \<and>
         length (process_logs parse (xs @ bad # ys)) + 1 = length (xs @ bad # ys) \<and>
         (connect c = Inr True \<and> fetch_logs c None None = Inr (xs @ bad # ys) \<and>
          parse_log c = parse \<longrightarrow>
            last_run (snd (run c now self)) = Some now \<and>
            (disconnect c = None \<longrightarrow>
               fst (run c now self) = Inr (map (projr \<circ> parse) (xs @ ys))))"
proof -
  from good have gx: "list_all (\<lambda>r. \<not> isl (parse r)) xs"
    and gy: "list_all (\<lambda>r. \<not> isl (parse r)) ys"
    by simp_all
  have eq: "process_logs parse (xs @ bad # ys) = map (projr \<circ> parse) (xs @ ys)"
    using bad process_logs_all_ok [OF gx] process_logs_all_ok [OF gy]
    by (simp add: process_logs_append process_logs_Cons)
  have len: "length (process_logs parse (xs @ bad # ys)) + 1 = length (xs @ bad # ys)"
    by (simp add: eq)
  have cyc: "connect c = Inr True \<and> fetch_logs c None None = Inr (xs @ bad # ys) \<and>
      parse_log c = parse \<longrightarrow>
        last_run (snd (run c now self)) = Some now \<and>
        (disconnect c = None \<longrightarrow>
           fst (run c now self) = Inr (map (projr \<circ> parse) (xs @ ys)))"
    using eq by (auto simp add: run_def split: option.splits)
  from eq len cyc show ?thesis by blast
qed

theorem process_logs_drops_one_witness:
  "process_logs strict_parse_log [[(''_source'', PInt 1)], [], [(''_source'', PInt 2)]] =
     [[(''raw'', PInt 1)], [(''raw'', PInt 2)]] \<and>
   last_run (snd (run example_batch_connector 7 example_agent)) = Some 7 \<and>
   fst (run example_batch_connector 7 example_agent) =
     Inr [[(''raw'', PInt 1)], [(''raw'', PInt 2)]]"
proof -
  have bad: "strict_parse_log [] = Inl (KeyError ''_source'')"
    by (simp add: strict_parse_log_def)
  have good: "list_all (\<lambda>r. \<not> isl (strict_parse_log r))
      ([[(''_source'', PInt 1)]] @ [[(''_source'', PInt 2)]])"
    by (simp add: strict_parse_log_def)
  have conn: "connect example_batch_connector = Inr True \<and>
      fetch_logs example_batch_connector None None =
        Inr ([[(''_source'', PInt 1)]] @ [] # [[(''_source'', PInt 2)]]) \<and>
      parse_log example_batch_connector = strict_parse_log"
    by (simp add: example_batch_connector_def)
  have disc: "disconnect example_batch_connector = None"
    by (simp add: example_batch_connector_def)
  have evs: "map (projr \<circ> strict_parse_log)
      ([[(''_source'', PInt 1)]] @ [[(''_source'', PInt 2)]]) =
        [[(''raw'', PInt 1)], [(''raw'', PInt 2)]]"
    by (simp add: strict_parse_log_def)
  from process_logs_drops_one [OF bad good, of example_batch_connector 7 example_agent]
    conn disc
  have "process_logs strict_parse_log
          ([[(''_source'', PInt 1)]] @ [] # [[(''_source'', PInt 2)]]) =
        map (projr \<circ> strict_parse_log)
          ([[(''_source'', PInt 1)]] @ [[(''_source'', PInt 2)]]) \<and>
      last_run (snd (run example_batch_connector 7 example_agent)) = Some 7 \<and>
      fst (run example_batch_connector 7 example_agent) =
        Inr (map (projr \<circ> strict_parse_log)
          ([[(''_source'', PInt 1)]] @ [[(''_source'', PInt 2)]]))"
    by blast
  then show ?thesis unfolding evs by simp
qed

subsection \<open>The connector cycle\<close>

text \<open>
  Claim C4, as the code has it.  \<^verbatim>\<open>run\<close> calls \<^verbatim>\<open>fetch_logs\<close> with no arguments, so the
  window never starts at \<^verbatim>\<open>last_run\<close>: for the Splunk connector the start is the clock
  minus \<^verbatim>\<open>search_interval\<close> seconds and the end is the clock, the search is submitted
  with these two bounds, and what \<^verbatim>\<open>run\<close> returns does not depend on \<^verbatim>\<open>last_run\<close>.  A start
  and an end passed to \<^verbatim>\<open>fetch_logs\<close> explicitly are used as they are.
\<close>

theorem splunk_cycle_window:
  "splunk_fetch_window cfg now1 now2 None None =
     (now1 - timedelta_seconds (search_interval cfg), now2) \<and>
   fetch_logs (splunk_agent cfg service_error search now1 now2 now_iso logout_error) None None =
     Inr (case search (Search (index cfg)
                 (whole_seconds (now1 - timedelta_seconds (search_interval cfg)))
                 (whole_seconds now2)) of
            Inl e \<Rightarrow> [] | Inr logs \<Rightarrow> logs) \<and>
   fst (run c now (self\<lparr>last_run := lr\<rparr>)) = fst (run c now self) \<and>
   splunk_fetch_window cfg now1 now2 (Some s) (Some e) = (s, e)"
  by (simp add: splunk_fetch_window_def splunk_agent_def splunk_fetch_logs_def run_def
        split: sum.splits option.splits)

text \<open>
  The claim as stated fails.  An agent whose \<^verbatim>\<open>last_run\<close> is second 100 runs a cycle at
  second 1000 with a 300 second interval: the window starts at second 700, and the
  service is searched from second 700 to second 1000.
\<close>

theorem window_start_not_watermark:
  "last_run example_agent = Some 100000000 \<and>
   fst (splunk_fetch_window example_config 1000000000 1000000000 None None) \<noteq> 100000000 \<and>
   fst (run (splunk_agent example_config None echo_search
               1000000000 1000000000 ''2024-01-01T00:16:40'' None)
          1000000001 example_agent) =
     Inr [splunk_parse_log ''2024-01-01T00:16:40''
            [(''_raw'', PList [PInt 700000000, PInt 1000000000])]]"
  by (simp add: splunk_fetch_window_def splunk_agent_def splunk_fetch_logs_def run_def
        timedelta_seconds_def whole_seconds_def echo_search_def process_logs_def
        example_agent_def example_config_def)




subsection \<open>The collection scheduler\<close>

text \<open>
  Claim C2.  A cycle whose \<^verbatim>\<open>run\<close> returns a non-empty list of events should publish
  them to the \<^verbatim>\<open>logs\<close> queue.  \<^verbatim>\<open>run_agent\<close> does not: all it does with the events is log
  how many there are.  Its whole effect is the agent's new state and two logger lines.
\<close>

theorem run_agent_only_logs:
  assumes "map_of (agents self) agent_name = Some a"
    and "run (world agent_name) now a = (Inr logs, a')"
    and "logs \<noteq> []"
  shows "run_agent world now agent_name self =
           (self\<lparr>agents := setitem agent_name a' (agents self)\<rparr>,
            [Info_running agent_name, Info_collected (length logs) agent_name])"
  using assms by (simp add: run_agent_def)

theorem run_agent_only_logs_witness:
  "run_agent example_world 1000000001 ''splunk'' example_runner =
     (\<lparr>agents = [(''splunk'', \<lparr>last_run = Some 1000000001, batch_size = 1000\<rparr>)],
       running = True\<rparr>,
      [Info_running ''splunk'', Info_collected 1 ''splunk''])"
proof -
  let ?events = "[splunk_parse_log ''2024-01-01T00:16:40''
            [(''_raw'', PList [PInt 700000000, PInt 1000000000])]]"
  have found: "map_of (agents example_runner) ''splunk'' = Some example_agent"
    by (simp add: example_runner_def)
  have ran: "run (example_world ''splunk'') 1000000001 example_agent =
      (Inr ?events, example_agent\<lparr>last_run := Some 1000000001\<rparr>)"
    by (simp add: example_world_def splunk_fetch_window_def splunk_agent_def
          splunk_fetch_logs_def run_def timedelta_seconds_def whole_seconds_def
          echo_search_def process_logs_def example_config_def)
  have nonempty: "?events \<noteq> []" by simp
  from run_agent_only_logs [where world = example_world and agent_name = "''splunk''",
      OF found ran nonempty]
  show ?thesis by (simp add: example_runner_def example_agent_def)
qed


subsection \<open>The message bus\<close>

lemma setitem_fresh: "k \<notin> fst ` set d \<Longrightarrow> setitem k v d = d @ [(k, v)]"
  by (induction d) auto

lemma foldl_setitem_distinct:
  "distinct (map fst (acc @ kvs)) \<Longrightarrow>
     foldl (\<lambda>d kv. setitem (fst kv) (snd kv) d) acc kvs = acc @ kvs"
proof (induction kvs arbitrary: acc)
  case Nil
  show ?case by simp
next
  case (Cons kv kvs)
  from Cons.prems have fresh: "fst kv \<notin> fst ` set acc" by auto
  from Cons.prems have d: "distinct (map fst ((acc @ [kv]) @ kvs))" by simp
  show ?case
    using Cons.IH [OF d] by (simp add: setitem_fresh [OF fresh])
qed

lemma dict_of_pairs_distinct: "distinct (map fst kvs) \<Longrightarrow> dict_of_pairs kvs = kvs"
  using foldl_setitem_distinct [of "[]" kvs] by (simp add: dict_of_pairs_def)

lemma loads_to_json: "wf_pyval v \<Longrightarrow> serializable v \<Longrightarrow> loads (to_json v) = v"
proof (induction v)
  case (PList xs)
  then show ?case by (auto simp add: list_all_iff map_idI)
next
  case (PDict kvs)
  have member: "map_prod id (loads \<circ> to_json) kv = kv" if "kv \<in> set kvs" for kv
  proof -
    obtain k v where kv: "kv = (k, v)" by (cases kv)
    from that kv PDict.prems have "wf_pyval v" and "serializable v"
      by (auto simp add: list_all_iff)
    with PDict.IH [of kv v] that kv have "loads (to_json v) = v" by simp
    with kv show ?thesis by simp
  qed
  have vals: "map (map_prod id loads) (map (map_prod id to_json) kvs) = kvs"
    using member by (simp add: map_idI prod.map_comp)
  from PDict.prems have "distinct (map fst kvs)" by simp
  then have "dict_of_pairs kvs = kvs" by (rule dict_of_pairs_distinct)
  moreover have "loads (to_json (PDict kvs)) =
      PDict (dict_of_pairs (map (map_prod id loads) (map (map_prod id to_json) kvs)))"
    by simp
  ultimately show ?case by (simp only: vals)
qed simp_all

lemma map_of_setitem: "map_of (setitem k v d) = (map_of d)(k \<mapsto> v)"
  by (induction d) (auto simp add: fun_eq_iff)

lemma keys_setitem: "fst ` set (setitem k v d) = insert k (fst ` set d)"
  by (induction d) auto

lemma distinct_setitem: "distinct (map fst d) \<Longrightarrow> distinct (map fst (setitem k v d))"
  by (induction d) (auto simp add: keys_setitem)

lemma all_snd_setitem:
  "P v \<Longrightarrow> list_all snd (map (map_prod id P) d) \<Longrightarrow>
     list_all snd (map (map_prod id P) (setitem k v d))"
  by (induction d) auto

lemma wf_setitem:
  "wf_pyval v \<Longrightarrow> wf_pyval (PDict d) \<Longrightarrow> wf_pyval (PDict (setitem k v d))"
  by (simp add: distinct_setitem all_snd_setitem)

lemma serializable_setitem:
  "serializable v \<Longrightarrow> serializable (PDict d) \<Longrightarrow> serializable (PDict (setitem k v d))"
  by (simp add: all_snd_setitem)

text \<open>
  Claim C3, as the code has it.  A well-formed, JSON-serializable payload published to
  a declared queue with the channel working is appended to the queue, and the body
  enqueued, passed through the consumer's callback, hands the handler the payload with
  its \<^verbatim>\<open>timestamp\<close> key set to the publish time; from an empty queue, \<^verbatim>\<open>consume\<close> delivers
  exactly that.  Every other key holds the original value after the JSON round trip,
  and the handler's outcome decides between acknowledging and negatively acknowledging.
\<close>

theorem publish_consume_stamped:
  assumes declared: "queue \<in> set (map snd queues)"
    and wf: "wf_pyval (PDict message)"
    and ser: "serializable (PDict message)"
  shows "publish now_iso None queue message broker =
           (Inr (), setitem ''timestamp'' (PStr now_iso) message,
            broker(queue := broker queue @
              [to_json (PDict (setitem ''timestamp'' (PStr now_iso) message))])) \<and>
         consume_callback callback
             (to_json (PDict (setitem ''timestamp'' (PStr now_iso) message))) =
           (PDict (setitem ''timestamp'' (PStr now_iso) message),
            case callback (PDict (setitem ''timestamp'' (PStr now_iso) message)) of
              None \<Rightarrow> Acked | Some e \<Rightarrow> Nacked) \<and>
         (broker queue = [] \<longrightarrow>
            fst (consume callback queue
                   (snd (snd (publish now_iso None queue message broker)))) =
              Inr (Some (PDict (setitem ''timestamp'' (PStr now_iso) message),
                         case callback (PDict (setitem ''timestamp'' (PStr now_iso) message)) of
                           None \<Rightarrow> Acked | Some e \<Rightarrow> Nacked))) \<and>
         (\<forall>k. k \<noteq> ''timestamp'' \<longrightarrow>
            map_of (setitem ''timestamp'' (PStr now_iso) message) k = map_of message k)"
proof -
  let ?m = "setitem ''timestamp'' (PStr now_iso) message"
  have ser': "serializable (PDict ?m)"
    using ser by (intro serializable_setitem) simp_all
  have wf': "wf_pyval (PDict ?m)"
    using wf by (intro wf_setitem) simp_all
  have pub: "publish now_iso None queue message broker =
      (Inr (), ?m, broker(queue := broker queue @ [to_json (PDict ?m)]))"
    using declared ser' by (simp add: publish_def dumps_def Let_def)
  have roundtrip: "loads (to_json (PDict ?m)) = PDict ?m"
    using wf' ser' by (rule loads_to_json)
  define body where "body = to_json (PDict ?m)"
  have cb: "consume_callback callback body =
      (PDict ?m, case callback (PDict ?m) of None \<Rightarrow> Acked | Some e \<Rightarrow> Nacked)"
    by (simp only: consume_callback_def roundtrip Let_def body_def)
  have con: "broker queue = [] \<longrightarrow>
      fst (consume callback queue (broker(queue := broker queue @ [body]))) =
        Inr (Some (PDict ?m, case callback (PDict ?m) of None \<Rightarrow> Acked | Some e \<Rightarrow> Nacked))"
    using declared by (simp add: consume_def cb split: option.splits)
  have others: "\<forall>k. k \<noteq> ''timestamp'' \<longrightarrow> map_of ?m k = map_of message k"
    by (simp add: map_of_setitem)
  from pub cb con others show ?thesis unfolding body_def by (simp only: snd_conv)
qed

theorem publish_consume_stamped_witness:
  "publish ''2024-06-01T12:00:00'' None ''security_logs'' example_event empty_broker =
     (Inr (),
      [(''timestamp'', PStr ''2024-06-01T12:00:00''), (''severity'', PStr ''high'')],
      empty_broker(''security_logs'' :=
        [JObject [(''timestamp'', JString ''2024-06-01T12:00:00''),
                  (''severity'', JString ''high'')]])) \<and>
   map_of (setitem ''timestamp'' (PStr ''2024-06-01T12:00:00'') example_event) ''severity'' =
     Some (PStr ''high'')"
proof -
  have declared: "''security_logs'' \<in> set (map snd queues)"
    by (simp add: queues_def)
  have empty: "empty_broker ''security_logs'' = []"
    by (simp add: empty_broker_def)
  have wf: "wf_pyval (PDict example_event)"
    by (simp add: example_event_def)
  have ser: "serializable (PDict example_event)"
    by (simp add: example_event_def)
  have other: "''severity'' \<noteq> ''timestamp''" by simp
  from publish_consume_stamped [where queue = "''security_logs''" and broker = empty_broker
      and message = example_event and now_iso = "''2024-06-01T12:00:00''"
      and callback = accepting_handler, OF declared wf ser] empty other
  show ?thesis by (simp add: example_event_def)
qed

text \<open>
  The claim as stated fails.  An event stamped with its event time is published at a
  later time: the handler receives the publish time under \<^verbatim>\<open>timestamp\<close>, although the JSON
  round trip of the original event is the original event.
\<close>

theorem publish_overwrites_event_time:
  "fst (consume accepting_handler ''security_logs''
          (snd (snd (publish ''2024-06-01T12:00:00'' None ''security_logs'' example_event
                       empty_broker)))) =
     Inr (Some (PDict [(''timestamp'', PStr ''2024-06-01T12:00:00''),
                       (''severity'', PStr ''high'')], Acked)) \<and>
   loads (to_json (PDict example_event)) = PDict example_event \<and>
   PDict [(''timestamp'', PStr ''2024-06-01T12:00:00''), (''severity'', PStr ''high'')] \<noteq>
     PDict example_event"
  by (simp add: consume_def consume_callback_def publish_def dumps_def queues_def
        example_event_def empty_broker_def accepting_handler_def dict_of_pairs_def)

text \<open>
  Claim C10.  On a declared queue, whatever then happens to the message (the body may
  fail to serialize, the channel may fail), the caller's dictionary after \<^verbatim>\<open>publish\<close> is
  the dictionary before with \<^verbatim>\<open>timestamp\<close> assigned the publish time: the key holds the
  publish time, set or overwritten, and every other key holds what it held.
\<close>

theorem publish_sets_timestamp:
  assumes "queue \<in> set (map snd queues)"
  shows "fst (snd (publish now_iso channel_error queue message broker)) =
           setitem ''timestamp'' (PStr now_iso) message \<and>
         map_of (fst (snd (publish now_iso channel_error queue message broker))) ''timestamp'' =
           Some (PStr now_iso) \<and>
         (\<forall>k. k \<noteq> ''timestamp'' \<longrightarrow>
            map_of (fst (snd (publish now_iso channel_error queue message broker))) k =
              map_of message k)"
proof -
  have "fst (snd (publish now_iso channel_error queue message broker)) =
           setitem ''timestamp'' (PStr now_iso) message"
    using assms by (simp add: publish_def Let_def split: sum.splits option.splits)
  then show ?thesis by (simp add: map_of_setitem)
qed

theorem publish_sets_timestamp_witness:
  "fst (snd (publish ''2024-06-01T12:00:00'' (Some (OtherException ''AMQPConnectionError''))
               ''security_logs'' example_event empty_broker)) =
     [(''timestamp'', PStr ''2024-06-01T12:00:00''), (''severity'', PStr ''high'')] \<and>
   map_of (fst (snd (publish ''2024-06-01T12:00:00''
                       (Some (OtherException ''AMQPConnectionError''))
                       ''security_logs'' example_event empty_broker))) ''severity'' =
     Some (PStr ''high'')"
proof -
  have declared: "''security_logs'' \<in> set (map snd queues)"
    by (simp add: queues_def)
  have other: "''severity'' \<noteq> ''timestamp''" by simp
  from publish_sets_timestamp [OF declared, of "''2024-06-01T12:00:00''"
      "Some (OtherException ''AMQPConnectionError'')" example_event empty_broker] other
  show ?thesis by (simp add: example_event_def)
qed

subsection \<open>The analysis stage\<close>

text \<open>
  Claim C8.  When formatting the prompt, tokenizing, generating or decoding raises,
  \<^verbatim>\<open>analyze_security_event\<close> returns the fixed result with severity \<^verbatim>\<open>unknown\<close>, impact
  \<^verbatim>\<open>Error during analysis\<close>, the one recommendation \<^verbatim>\<open>Investigate analysis error\<close> and no
  indicators.  When every step returns, it returns the parse of the response (the parser
  is total on text).  So the method returns a result on every path and raises on none.
\<close>

theorem analysis_fallback:
  "((\<exists>e. format_prompt engine (format_event_details str_of event) = Inl e) \<or>
    (\<exists>prompt. format_prompt engine (format_event_details str_of event) = Inr prompt \<and>
       ((\<exists>e. tokenizer engine prompt = Inl e) \<or>
        (\<exists>inputs. tokenizer engine prompt = Inr inputs \<and>
           ((\<exists>e. generate engine inputs = Inl e) \<or>
            (\<exists>outputs. generate engine inputs = Inr outputs \<and>
               (\<exists>e. decode engine outputs = Inl e))))))
    \<longrightarrow> analyze_security_event engine str_of event =
          \<lparr>severity = ''unknown'',
           impact = ''Error during analysis'',
           recommendations = [''Investigate analysis error''],
           iocs = []\<rparr>) \<and>
   (format_prompt engine (format_event_details str_of event) = Inr prompt \<and>
    tokenizer engine prompt = Inr inputs \<and>
    generate engine inputs = Inr outputs \<and>
    decode engine outputs = Inr response
    \<longrightarrow> analyze_security_event engine str_of event = parse_analysis_response response)"
  by (auto simp add: analyze_security_event_def analyze_body_def)

theorem analysis_fallback_witness:
  "analyze_security_event failing_llm example_str_of example_event =
     \<lparr>severity = ''unknown'',
      impact = ''Error during analysis'',
      recommendations = [''Investigate analysis error''],
      iocs = []\<rparr> \<and>
   analyze_security_event canned_llm example_str_of example_event =
     parse_analysis_response ''Severity: High''"
proof -
  let ?details = "format_event_details example_str_of example_event"
  have stages: "format_prompt failing_llm ?details = Inr ?details \<and>
      tokenizer failing_llm ?details = Inr ?details \<and>
      generate failing_llm ?details = Inl (OtherException ''CUDA out of memory'')"
    by (simp add: failing_llm_def)
  have fails: "(\<exists>e. format_prompt failing_llm ?details = Inl e) \<or>
    (\<exists>prompt. format_prompt failing_llm ?details = Inr prompt \<and>
       ((\<exists>e. tokenizer failing_llm prompt = Inl e) \<or>
        (\<exists>inputs. tokenizer failing_llm prompt = Inr inputs \<and>
           ((\<exists>e. generate failing_llm inputs = Inl e) \<or>
            (\<exists>outputs. generate failing_llm inputs = Inr outputs \<and>
               (\<exists>e. decode failing_llm outputs = Inl e))))))"
    using stages by blast
  have works: "format_prompt canned_llm ?details = Inr ?details \<and>
      tokenizer canned_llm ?details = Inr ?details \<and>
      generate canned_llm ?details = Inr ''Severity: High'' \<and>
      decode canned_llm ''Severity: High'' = Inr ''Severity: High''"
    by (simp add: canned_llm_def)
  from analysis_fallback [of failing_llm example_str_of example_event] fails
  have r1: "analyze_security_event failing_llm example_str_of example_event =
     \<lparr>severity = ''unknown'',
      impact = ''Error during analysis'',
      recommendations = [''Investigate analysis error''],
      iocs = []\<rparr>"
    by blast
  from analysis_fallback [of canned_llm example_str_of example_event ?details ?details
      "''Severity: High''" "''Severity: High''"] works
  have r2: "analyze_security_event canned_llm example_str_of example_event =
     parse_analysis_response ''Severity: High''"
    by blast
  from r1 r2 show ?thesis by simp
qed

subsection \<open>Alert fan-out\<close>

lemma send_alert_loop_map:
  "send_alert_loop self post smtp alert channels =
     map (\<lambda>channel. (channel,
            if channel = ''slack'' then send_slack_alert self post alert
            else send_email_alert self smtp alert))
       (filter (\<lambda>channel. channel \<in> set [''slack'', ''email'']) channels)"
  by (induction channels) simp_all

text \<open>
  Claim C9.  \<^verbatim>\<open>send_alert\<close> makes one delivery attempt for every \<^verbatim>\<open>slack\<close> and \<^verbatim>\<open>email\<close>
  entry of the channel list, in order, and the outcome of each attempt is that channel's
  own: what an earlier channel raised changes nothing for the later ones.  With no
  channel list, or an empty one, the two default channels are attempted.  In
  particular, when Slack raises and the mail goes out, the trace is the Slack failure
  followed by the successful mail.  The method itself returns on every input.
\<close>

theorem send_alert_attempts_every_channel:
  "send_alert self post smtp alert (Some (c # cs)) =
     map (\<lambda>channel. (channel,
            if channel = ''slack'' then send_slack_alert self post alert
            else send_email_alert self smtp alert))
       (filter (\<lambda>channel. channel \<in> set [''slack'', ''email'']) (c # cs)) \<and>
   send_alert self post smtp alert None =
     [(''slack'', send_slack_alert self post alert),
      (''email'', send_email_alert self smtp alert)] \<and>
   send_alert self post smtp alert (Some []) =
     [(''slack'', send_slack_alert self post alert),
      (''email'', send_email_alert self smtp alert)] \<and>
   (send_slack_alert self post alert = Some e \<and> send_email_alert self smtp alert = None
      \<longrightarrow> send_alert self post smtp alert (Some [''slack'', ''email'']) =
            [(''slack'', Some e), (''email'', None)])"
proof -
  have general: "send_alert self post smtp alert (Some (c # cs)) =
     map (\<lambda>channel. (channel,
            if channel = ''slack'' then send_slack_alert self post alert
            else send_email_alert self smtp alert))
       (filter (\<lambda>channel. channel \<in> set [''slack'', ''email'']) (c # cs))"
    unfolding send_alert_def by (simp only: send_alert_loop_map list.case option.case)
  have dflt: "send_alert self post smtp alert None =
     [(''slack'', send_slack_alert self post alert),
      (''email'', send_email_alert self smtp alert)]"
    by (simp add: send_alert_def)
  have dflt': "send_alert self post smtp alert (Some []) =
     [(''slack'', send_slack_alert self post alert),
      (''email'', send_email_alert self smtp alert)]"
    by (simp add: send_alert_def)
  have scenario: "send_slack_alert self post alert = Some e \<and>
      send_email_alert self smtp alert = None
      \<longrightarrow> send_alert self post smtp alert (Some [''slack'', ''email'']) =
            [(''slack'', Some e), (''email'', None)]"
    by (simp add: send_alert_def)
  from general dflt dflt' scenario show ?thesis by blast
qed

theorem send_alert_attempts_every_channel_witness:
  "send_alert example_notifier delivering_transport delivering_transport example_event
     (Some [''slack'', ''email'']) =
     [(''slack'', Some (ValueError ''Slack webhook URL not configured'')), (''email'', None)]"
proof -
  have outcomes: "send_slack_alert example_notifier delivering_transport example_event =
      Some (ValueError ''Slack webhook URL not configured'') \<and>
      send_email_alert example_notifier delivering_transport example_event = None"
    by (simp add: send_slack_alert_def send_email_alert_def example_notifier_def truthy_def
          delivering_transport_def)
  from send_alert_attempts_every_channel [of example_notifier delivering_transport
      delivering_transport example_event "''slack''" "[''email'']"
      "ValueError ''Slack webhook URL not configured''"] outcomes
  show ?thesis by blast
qed

end
